theory Spec2Isabelle
  imports Main
begin

section \<open>Python values as the script sees them\<close>

text \<open>
  A Python \<open>str\<close> is a sequence of Unicode code points, so a string is a list of
  natural numbers. \<open>U\<close> writes an ASCII literal of the source.
\<close>

type_synonym pystr = "nat list"

definition U :: "string \<Rightarrow> pystr" where
  "U s = map of_char s"

text \<open>
  The objects \<open>row["GitHub ID"]\<close> can hold. \<open>None\<close>, the float NaN, and a Python
  \<open>bool\<close>, \<open>int\<close> and \<open>str\<close> are written out. Any other object of a cell (a finite
  float, a \<open>numpy.int64\<close>, \<open>numpy.float64\<close> or \<open>numpy.bool_\<close>, a \<open>Timestamp\<close>) is
  \<open>PyOther\<close> with the four things the script observes of it: the name of its type, its
  \<open>str()\<close> text, its truth value, and whether \<open>pd.isna\<close> holds of it. None of these
  types has an attribute \<open>strip\<close>. A pandas \<open>Series\<close> is what the lookup returns when the
  frame has two columns of that name.
\<close>

datatype scalar =
  PyNone | PyNaN | PyBool bool | PyInt int | PyStr pystr
  | PyOther pystr pystr bool bool

datatype pyval = Scalar scalar | Series "scalar list"

datatype exn_class =
  RequestException | ConnectionError | Timeout | HTTPError
  | AttributeError | ValueError | IndexError | OtherError

datatype pyexn = Exn exn_class pystr

text \<open>\<open>isinstance(e, requests.exceptions.RequestException)\<close>: the class and its subclasses.\<close>

fun is_RequestException :: "exn_class \<Rightarrow> bool" where
  "is_RequestException RequestException = True"
| "is_RequestException ConnectionError = True"
| "is_RequestException Timeout = True"
| "is_RequestException HTTPError = True"
| "is_RequestException _ = False"

fun exn_str :: "pyexn \<Rightarrow> pystr" where
  "exn_str (Exn c m) = m"

fun exn_class_of :: "pyexn \<Rightarrow> exn_class" where
  "exn_class_of (Exn c m) = c"

subsection \<open>\<open>str()\<close>, truth value, \<open>pd.isna\<close>\<close>

function nat_digits :: "nat \<Rightarrow> pystr" where
  "nat_digits n = (if n < 10 then [48 + n] else nat_digits (n div 10) @ [48 + n mod 10])"
  by pat_completeness auto
termination
  by (relation "measure id") auto

declare nat_digits.simps [simp del]

definition int_str :: "int \<Rightarrow> pystr" where
  "int_str i = (if i < 0 then 45 # nat_digits (nat (- i)) else nat_digits (nat i))"

fun py_str :: "scalar \<Rightarrow> pystr" where
  "py_str PyNone = U ''None''"
| "py_str PyNaN = U ''nan''"
| "py_str (PyBool b) = (if b then U ''True'' else U ''False'')"
| "py_str (PyInt i) = int_str i"
| "py_str (PyStr s) = s"
| "py_str (PyOther ty txt truth na) = txt"

fun truthy :: "scalar \<Rightarrow> bool" where
  "truthy PyNone = False"
| "truthy PyNaN = True"
| "truthy (PyBool b) = b"
| "truthy (PyInt i) = (i \<noteq> 0)"
| "truthy (PyStr s) = (s \<noteq> [])"
| "truthy (PyOther ty txt truth na) = truth"

fun pd_isna :: "scalar \<Rightarrow> bool" where
  "pd_isna PyNone = True"
| "pd_isna PyNaN = True"
| "pd_isna (PyOther ty txt truth na) = na"
| "pd_isna _ = False"

fun type_name :: "scalar \<Rightarrow> pystr" where
  "type_name PyNone = U ''NoneType''"
| "type_name PyNaN = U ''float''"
| "type_name (PyBool b) = U ''bool''"
| "type_name (PyInt i) = U ''int''"
| "type_name (PyStr s) = U ''str''"
| "type_name (PyOther ty txt truth na) = ty"

text \<open>The truth value of a \<open>Series\<close> is an error in pandas, whatever it holds.\<close>

definition series_truth_msg :: pystr where
  "series_truth_msg =
     U ''The truth value of a Series is ambiguous. Use a.empty, a.bool(), a.item(), a.any() or a.all().''"


subsection \<open>\<open>str.strip()\<close>, \<open>str.lower()\<close>, \<open>re.match\<close>\<close>

text \<open>The code points for which \<open>str.isspace\<close> holds; \<open>strip()\<close> removes them at both ends.\<close>

definition isspace :: "nat \<Rightarrow> bool" where
  "isspace c = ((9 \<le> c \<and> c \<le> 13) \<or> (28 \<le> c \<and> c \<le> 32) \<or> c = 133 \<or> c = 160
      \<or> c = 5760 \<or> (8192 \<le> c \<and> c \<le> 8202) \<or> c = 8232 \<or> c = 8233
      \<or> c = 8239 \<or> c = 8287 \<or> c = 12288)"

definition py_strip :: "pystr \<Rightarrow> pystr" where
  "py_strip s = rev (dropWhile isspace (rev (dropWhile isspace s)))"

text \<open>
  \<open>str.lower()\<close>: the ASCII capitals, and the two code points outside ASCII whose
  lowercase form holds an ASCII letter (U+0130 and the Kelvin sign U+212A). Every other
  code point outside ASCII is kept as it is here; Python maps it to code points outside
  ASCII, so that a comparison with an ASCII literal, the only use the script makes of
  \<open>lower()\<close>, gives the same answer.
\<close>

definition lower_cp :: "nat \<Rightarrow> pystr" where
  "lower_cp c = (if 65 \<le> c \<and> c \<le> 90 then [c + 32]
     else if c = 304 then [105, 775]
     else if c = 8490 then [107]
     else [c])"

definition py_lower :: "pystr \<Rightarrow> pystr" where
  "py_lower s = concat (map lower_cp s)"

text \<open>The character class \<open>[a-zA-Z0-9\-]\<close>.\<close>

definition id_char :: "nat \<Rightarrow> bool" where
  "id_char c = ((97 \<le> c \<and> c \<le> 122) \<or> (65 \<le> c \<and> c \<le> 90) \<or> (48 \<le> c \<and> c \<le> 57) \<or> c = 45)"

text \<open>
  \<open>re.match(r'^[a-zA-Z0-9\-]+$', s)\<close>: a non-empty run of the class up to the end of the
  string, or up to a single newline that ends the string (Python's \<open>$\<close> without
  \<open>re.MULTILINE\<close>).
\<close>

definition re_match_id :: "pystr \<Rightarrow> bool" where
  "re_match_id s =
     (let body = (if s \<noteq> [] \<and> last s = 10 then butlast s else s)
      in body \<noteq> [] \<and> list_all id_char body)"

text \<open>\<open>github_id.strip()\<close>: only a \<open>str\<close> has the method.\<close>

definition quoted :: "pystr \<Rightarrow> pystr" where
  "quoted s = 39 # s @ [39]"

definition no_attribute_msg :: "pystr \<Rightarrow> pystr \<Rightarrow> pystr" where
  "no_attribute_msg ty attr = quoted ty @ U '' object has no attribute '' @ quoted attr"

fun strip_method :: "pyval \<Rightarrow> pyexn + pystr" where
  "strip_method (Scalar (PyStr s)) = Inr (py_strip s)"
| "strip_method (Scalar v) = Inl (Exn AttributeError (no_attribute_msg (type_name v) (U ''strip'')))"
| "strip_method (Series xs) = Inl (Exn AttributeError (no_attribute_msg (U ''Series'') (U ''strip'')))"

text \<open>
  Line 22, the test for a missing identifier:
  \<open>not github_id or pd.isna(github_id) or str(github_id).strip().lower() == "none"
   or not str(github_id).strip()\<close>.
  Its first operand asks for the truth value of the object, which raises for a
  \<open>Series\<close>; the test stands before the \<open>try\<close>, so that exception leaves the function.
\<close>

fun is_missing :: "pyval \<Rightarrow> pyexn + bool" where
  "is_missing (Series xs) = Inl (Exn ValueError series_truth_msg)"
| "is_missing (Scalar v) =
     Inr (\<not> truthy v \<or> pd_isna v \<or> py_lower (py_strip (py_str v)) = U ''none''
          \<or> py_strip (py_str v) = [])"

section \<open>The parsed page\<close>

text \<open>
  What \<open>BeautifulSoup(response.content, "html.parser")\<close> builds: a tree of tags and
  text. An attribute holds a string, or a list of strings for \<open>class\<close>. The attribute
  dictionary is an association list read with \<open>map_of\<close>. Only the strings that
  \<open>get_text()\<close> collects are text nodes of the tree.
\<close>

datatype attr = AStr pystr | AList "pystr list"

datatype node = Text pystr | Tag pystr "(pystr \<times> attr) list" "node list"

fun descendants :: "node \<Rightarrow> node list" where
  "descendants (Text s) = []"
| "descendants (Tag n as cs) = concat (map (\<lambda>c. c # descendants c) cs)"

fun join_space :: "pystr list \<Rightarrow> pystr" where
  "join_space [] = []"
| "join_space [x] = x"
| "join_space (x # y # ys) = x @ 32 # join_space (y # ys)"

fun attr_matches :: "pystr \<Rightarrow> attr \<Rightarrow> bool" where
  "attr_matches want (AStr s) = (s = want)"
| "attr_matches want (AList xs) = (want \<in> set xs \<or> join_space xs = want)"

fun tag_matches :: "pystr \<Rightarrow> pystr \<Rightarrow> pystr \<Rightarrow> node \<Rightarrow> bool" where
  "tag_matches tag key want (Text s) = False"
| "tag_matches tag key want (Tag n as cs) =
     (n = tag \<and> (case map_of as key of None \<Rightarrow> False | Some v \<Rightarrow> attr_matches want v))"

text \<open>\<open>find_all(tag, key=want)\<close>: the matching descendants, in document order.\<close>

definition bs_find_all :: "node \<Rightarrow> pystr \<Rightarrow> pystr \<Rightarrow> pystr \<Rightarrow> node list" where
  "bs_find_all root tag key want = filter (tag_matches tag key want) (descendants root)"

text \<open>\<open>find(tag, key=want)\<close>: the first of them, or \<open>None\<close>.\<close>

definition bs_find :: "node \<Rightarrow> pystr \<Rightarrow> pystr \<Rightarrow> pystr \<Rightarrow> node option" where
  "bs_find root tag key want =
     (case bs_find_all root tag key want of [] \<Rightarrow> None | x # _ \<Rightarrow> Some x)"

fun text_of :: "node \<Rightarrow> pystr" where
  "text_of (Text s) = s"
| "text_of (Tag n as cs) = []"

definition get_text :: "node \<Rightarrow> pystr" where
  "get_text el = concat (map text_of (descendants el))"

section \<open>The network\<close>

record request =
  url :: pystr
  user_agent :: pystr
  timeout :: nat

text \<open>
  A response as the script reads it: the status line, the final address, and what the
  parser makes of the body (a tree, or an exception raised while parsing).
\<close>

record response =
  status_code :: nat
  reason :: pystr
  resp_url :: pystr
  content :: "pyexn + node"

datatype http_outcome = Raised pyexn | Returned response

text \<open>
  \<open>requests.get\<close> is the world's answer to a request; it may depend on the requests
  made before.
\<close>

type_synonym network = "request list \<Rightarrow> request \<Rightarrow> http_outcome"

text \<open>
  \<open>response.raise_for_status()\<close> of the requests library: it raises \<open>HTTPError\<close>
  when \<open>400 <= status_code < 500\<close> ("Client Error") or \<open>500 <= status_code < 600\<close>
  ("Server Error"), and returns for every other status. \<open>requests.get\<close> follows a
  redirect that names a location; any other response, a 304 or a 3xx without location
  among them, is returned to the caller as it is.
\<close>

definition raise_for_status :: "response \<Rightarrow> pyexn + unit" where
  "raise_for_status r =
     (if 400 \<le> status_code r \<and> status_code r < 500
      then Inl (Exn HTTPError (nat_digits (status_code r) @ U '' Client Error: '' @ reason r
                  @ U '' for url: '' @ resp_url r))
      else if 500 \<le> status_code r \<and> status_code r < 600
      then Inl (Exn HTTPError (nat_digits (status_code r) @ U '' Server Error: '' @ reason r
                  @ U '' for url: '' @ resp_url r))
      else Inr ())"

section \<open>scrape_github\<close>

record repo =
  name :: pystr
  link :: pystr
  language :: pystr
  description :: pystr

text \<open>
  The dictionary the function returns: the key \<open>error\<close> is there or not, \<open>count\<close> and
  \<open>repos\<close> always are.
\<close>

record fetch_result =
  error :: "pystr option"
  count :: nat
  repos :: "repo list"

definition user_agent_header :: pystr where
  "user_agent_header =
     U ''Mozilla/5.0 (Windows NT 10.0; Win64; x64) AppleWebKit/537.36 (KHTML, like Gecko) Chrome/135.0.0.0 Safari/537.36''"

definition profile_request :: "pystr \<Rightarrow> request" where
  "profile_request github_id =
     \<lparr>url = U ''https://github.com/'' @ github_id @ U ''?tab=repositories'',
      user_agent = user_agent_header, timeout = 10\<rparr>"

text \<open>The body of the \<open>for repo in repos\<close> loop, lines 44 to 51.\<close>

definition repo_entry :: "pystr \<Rightarrow> node \<Rightarrow> repo" where
  "repo_entry github_id repo =
     (let name_elem = bs_find repo (U ''a'') (U ''itemprop'') (U ''name codeRepository'');
          name = (case name_elem of Some el \<Rightarrow> py_strip (get_text el) | None \<Rightarrow> U ''Unknown'');
          link = (if name \<noteq> U ''Unknown''
                  then U ''https://github.com/'' @ github_id @ U ''/'' @ name else []);
          language_elem = bs_find repo (U ''span'') (U ''itemprop'') (U ''programmingLanguage'');
          language = (case language_elem of Some el \<Rightarrow> py_strip (get_text el)
                      | None \<Rightarrow> U ''Unknown'');
          description_elem = bs_find repo (U ''p'') (U ''itemprop'') (U ''description'');
          description = (case description_elem of Some el \<Rightarrow> py_strip (get_text el)
                         | None \<Rightarrow> [])
      in \<lparr>name = name, link = link, language = language, description = description\<rparr>)"

fun repo_loop :: "pystr \<Rightarrow> node list \<Rightarrow> repo list \<Rightarrow> repo list" where
  "repo_loop github_id [] repo_data = repo_data"
| "repo_loop github_id (repo # rest) repo_data =
     repo_loop github_id rest (repo_data @ [repo_entry github_id repo])"

definition error_result :: "pystr \<Rightarrow> fetch_result" where
  "error_result msg = \<lparr>error = Some msg, count = 0, repos = []\<rparr>"

text \<open>
  The \<open>try\<close> block, lines 25 to 53. It returns the dictionary or the exception that
  leaves the block, and the requests made so far.
\<close>

definition try_block ::
  "network \<Rightarrow> request list \<Rightarrow> pyval \<Rightarrow> (pyexn + fetch_result) \<times> request list" where
  "try_block net log raw =
     (case strip_method raw of
        Inl e \<Rightarrow> (Inl e, log)
      | Inr github_id \<Rightarrow>
          if \<not> re_match_id github_id
          then (Inr (error_result (U ''Invalid GitHub ID format'')), log)
          else
            (let req = profile_request github_id; log' = log @ [req] in
             case net log req of
               Raised e \<Rightarrow> (Inl e, log')
             | Returned response \<Rightarrow>
                 (case raise_for_status response of
                    Inl e \<Rightarrow> (Inl e, log')
                  | Inr _ \<Rightarrow>
                      (case content response of
                         Inl e \<Rightarrow> (Inl e, log')
                       | Inr soup \<Rightarrow>
                           (case bs_find soup (U ''div'') (U ''id'') (U ''user-repositories-list'') of
                              None \<Rightarrow> (Inr (error_result (U ''No repositories found'')), log')
                            | Some repo_list \<Rightarrow>
                                (let repos = bs_find_all repo_list (U ''li'') (U ''class'') (U ''source'');
                                     repo_data = repo_loop github_id repos []
                                 in (Inr \<lparr>error = None, count = length repo_data,
                                           repos = repo_data\<rparr>, log')))))))"

text \<open>
  The whole function: the test of line 22, the \<open>try\<close> block, and the two handlers in
  their order (\<open>RequestException\<close> first, then \<open>Exception\<close>).
\<close>

definition scrape_github ::
  "network \<Rightarrow> request list \<Rightarrow> pyval \<Rightarrow> (pyexn + fetch_result) \<times> request list" where
  "scrape_github net log github_id =
     (case is_missing github_id of
        Inl e \<Rightarrow> (Inl e, log)
      | Inr missing \<Rightarrow>
          if missing then (Inr (error_result (U ''No GitHub ID provided'')), log)
          else
            (case try_block net log github_id of
               (Inr r, log') \<Rightarrow> (Inr r, log')
             | (Inl e, log') \<Rightarrow>
                 if is_RequestException (exn_class_of e)
                 then (Inr (error_result (U ''Network error: '' @ exn_str e)), log')
                 else (Inr (error_result (U ''Scraping error: '' @ exn_str e)), log')))"

section \<open>The rows of the sheet\<close>


text \<open>\<open>process_row\<close> returns \<open>{"github": github_result}\<close>.\<close>

record row_result =
  github :: fetch_result




section \<open>The exported table\<close>







section \<open>Vocabulary of the specification\<close>

text \<open>Letter case of ASCII, for "equal to none, case-insensitively".\<close>

definition ascii_lower :: "nat \<Rightarrow> nat" where
  "ascii_lower c = (if 65 \<le> c \<and> c \<le> 90 then c + 32 else c)"

text \<open>
  The inputs the specification calls missing: absent or null, empty, whitespace only,
  or \<open>none\<close> in any letter case once trimmed.
\<close>

fun no_identifier :: "pyval \<Rightarrow> bool" where
  "no_identifier (Scalar PyNone) = True"
| "no_identifier (Scalar PyNaN) = True"
| "no_identifier (Scalar (PyStr s)) =
     (list_all isspace s \<or> map ascii_lower (py_strip s) = U ''none'')"
| "no_identifier _ = False"

text \<open>A network on which every request times out.\<close>

definition net_timeout :: network where
  "net_timeout log req = Raised (Exn Timeout (U ''timed out''))"

text \<open>
  "Trimmed": \<open>r\<close> is the text \<open>t\<close> without its surrounding whitespace. \<open>r\<close> is a
  segment of \<open>t\<close>, only whitespace stands before and after it, and \<open>r\<close> itself neither
  begins nor ends with whitespace.
\<close>

definition trim_of :: "pystr \<Rightarrow> pystr \<Rightarrow> bool" where
  "trim_of t r =
     ((r = [] \<or> (\<not> isspace (hd r) \<and> \<not> isspace (last r)))
      \<and> list_ex (\<lambda>i. list_all isspace (take i t) \<and> take (length r) (drop i t) = r
                    \<and> list_all isspace (drop (i + length r) t))
            [0..<Suc (length t)])"

text \<open>An entry "marked as a source repository".\<close>

definition is_source_entry :: "node \<Rightarrow> bool" where
  "is_source_entry n = tag_matches (U ''li'') (U ''class'') (U ''source'') n"

subsection \<open>Sample responses and pages\<close>

definition resp_not_modified :: response where
  "resp_not_modified =
     \<lparr>status_code = 304, reason = U ''Not Modified'',
      resp_url = U ''https://github.com/octocat?tab=repositories'',
      content = Inr (Tag (U ''[document]'') [] [])\<rparr>"

definition net_not_modified :: network where
  "net_not_modified log req = Returned resp_not_modified"

definition resp_not_found :: response where
  "resp_not_found =
     \<lparr>status_code = 404, reason = U ''Not Found'',
      resp_url = U ''https://github.com/octocat?tab=repositories'',
      content = Inr (Tag (U ''[document]'') [] [])\<rparr>"

definition net_not_found :: network where
  "net_not_found log req = Returned resp_not_found"

definition entry_full :: node where
  "entry_full =
     Tag (U ''li'') [(U ''class'', AList [U ''public'', U ''source''])]
       [Tag (U ''a'') [(U ''itemprop'', AStr (U ''name codeRepository''))] [Text (U '' hello '')],
        Tag (U ''span'') [(U ''itemprop'', AStr (U ''programmingLanguage''))] [Text (U ''C'')]]"

definition entry_fork :: node where
  "entry_fork =
     Tag (U ''li'') [(U ''class'', AList [U ''public'', U ''fork''])]
       [Tag (U ''a'') [(U ''itemprop'', AStr (U ''name codeRepository''))] [Text (U ''copy'')]]"

definition entry_bare :: node where
  "entry_bare =
     Tag (U ''li'') [(U ''class'', AList [U ''source''])]
       [Tag (U ''p'') [(U ''itemprop'', AStr (U ''description''))] [Text (U ''notes'')]]"

definition list_of :: "node list \<Rightarrow> node" where
  "list_of entries = Tag (U ''div'') [(U ''id'', AStr (U ''user-repositories-list''))] entries"

definition page_of :: "node list \<Rightarrow> node" where
  "page_of entries = Tag (U ''[document]'') [] [list_of entries]"

definition resp_page :: "node \<Rightarrow> response" where
  "resp_page page =
     \<lparr>status_code = 200, reason = U ''OK'',
      resp_url = U ''https://github.com/octocat?tab=repositories'', content = Inr page\<rparr>"

definition net_page :: "node \<Rightarrow> network" where
  "net_page page log req = Returned (resp_page page)"

definition page_empty :: node where
  "page_empty = Tag (U ''[document]'') [] []"

subsection \<open>The result as a tagged union\<close>

text \<open>
  The specification's \<open>FetchResult\<close>, and the reading of a returned dictionary as one:
  the messages of the function name the kind of error.
\<close>

datatype error_kind =
  Missing | InvalidFormat | NetworkError pystr | NoRepositoriesFound | ScrapingError pystr

datatype FetchResult = Success "repo list" nat | Error error_kind nat

definition starts_with :: "pystr \<Rightarrow> pystr \<Rightarrow> bool" where
  "starts_with p m = (take (length p) m = p)"

definition classify :: "pystr \<Rightarrow> error_kind option" where
  "classify m =
     (if m = U ''No GitHub ID provided'' then Some Missing
      else if m = U ''Invalid GitHub ID format'' then Some InvalidFormat
      else if m = U ''No repositories found'' then Some NoRepositoriesFound
      else if starts_with (U ''Network error: '') m
      then Some (NetworkError (drop (length (U ''Network error: '')) m))
      else if starts_with (U ''Scraping error: '') m
      then Some (ScrapingError (drop (length (U ''Scraping error: '')) m))
      else None)"

definition to_FetchResult :: "fetch_result \<Rightarrow> FetchResult option" where
  "to_FetchResult d =
     (case error d of
        None \<Rightarrow> Some (Success (repos d) (count d))
      | Some m \<Rightarrow> map_option (\<lambda>k. Error k (count d)) (classify m))"

definition well_formed :: "fetch_result \<Rightarrow> bool" where
  "well_formed d =
     (case to_FetchResult d of
        Some (Success rs n) \<Rightarrow> n = length rs
      | Some (Error k n) \<Rightarrow> n = 0 \<and> repos d = []
      | None \<Rightarrow> False)"

subsection \<open>Sample cells that are neither Python numbers nor strings\<close>

definition np_int64_5 :: scalar where
  "np_int64_5 = PyOther (U ''numpy.int64'') (U ''5'') True False"

definition float_1_5 :: scalar where
  "float_1_5 = PyOther (U ''float'') (U ''1.5'') True False"

subsection \<open>Sample rows\<close>






section \<open>Trimming and letter case\<close>

lemma py_strip_Nil_iff: "py_strip s = [] \<longleftrightarrow> list_all isspace s"
proof
  assume "py_strip s = []"
  then have all: "\<forall>x\<in>set (dropWhile isspace s). isspace x"
    by (simp add: py_strip_def)
  have "dropWhile isspace s = []"
  proof (rule ccontr)
    assume ne: "dropWhile isspace s \<noteq> []"
    then have "\<not> isspace (hd (dropWhile isspace s))" by (rule hd_dropWhile)
    moreover have "hd (dropWhile isspace s) \<in> set (dropWhile isspace s)" using ne by simp
    ultimately show False using all by blast
  qed
  then show "list_all isspace s" by (simp add: list_all_iff)
next
  assume "list_all isspace s"
  then have "dropWhile isspace s = []" by (simp add: list_all_iff)
  then show "py_strip s = []" by (simp add: py_strip_def del: dropWhile_eq_Nil_conv)
qed

lemma py_strip_last: "py_strip s \<noteq> [] \<Longrightarrow> \<not> isspace (last (py_strip s))"
proof -
  assume ne: "py_strip s \<noteq> []"
  let ?d = "dropWhile isspace (rev (dropWhile isspace s))"
  from ne have d: "?d \<noteq> []" by (simp add: py_strip_def)
  then have "\<not> isspace (hd ?d)" by (rule hd_dropWhile)
  moreover have "last (py_strip s) = hd ?d" using d by (simp add: py_strip_def last_rev)
  ultimately show ?thesis by simp
qed

lemma trim_ofI:
  assumes "t = pre @ r @ post" and "list_all isspace pre" and "list_all isspace post"
    and "r = [] \<or> (\<not> isspace (hd r) \<and> \<not> isspace (last r))"
  shows "trim_of t r"
proof -
  have "length pre \<in> set [0..<Suc (length t)]" using assms(1) by simp
  moreover have "list_all isspace (take (length pre) t)" using assms(1,2) by simp
  moreover have "take (length r) (drop (length pre) t) = r" using assms(1) by simp
  moreover have "list_all isspace (drop (length pre + length r) t)"
    using assms(1,3) by simp
  ultimately show ?thesis using assms(4) unfolding trim_of_def list_ex_iff by blast
qed

lemma trim_ofD:
  assumes "trim_of t r"
  shows "\<exists>pre post. t = pre @ r @ post \<and> list_all isspace pre \<and> list_all isspace post"
proof -
  from assms obtain i where i: "list_all isspace (take i t)"
    "take (length r) (drop i t) = r" "list_all isspace (drop (i + length r) t)"
    unfolding trim_of_def list_ex_iff by blast
  have "t = take i t @ drop i t" by simp
  also have "drop i t = take (length r) (drop i t) @ drop (length r) (drop i t)"
    by (simp only: append_take_drop_id)
  also have "take (length r) (drop i t) = r" by (rule i(2))
  also have "drop (length r) (drop i t) = drop (i + length r) t" by (simp add: add.commute)
  finally have "t = take i t @ r @ drop (i + length r) t" .
  with i(1,3) show ?thesis by blast
qed

lemma py_strip_decomp:
  "s = takeWhile isspace s @ py_strip s @ rev (takeWhile isspace (rev (dropWhile isspace s)))"
proof -
  let ?u = "dropWhile isspace s"
  have "rev (rev ?u) = rev (takeWhile isspace (rev ?u) @ dropWhile isspace (rev ?u))"
    by (simp only: takeWhile_dropWhile_id)
  then have "?u = py_strip s @ rev (takeWhile isspace (rev ?u))"
    unfolding rev_append rev_rev_ident py_strip_def .
  from arg_cong [OF this, of "\<lambda>v. takeWhile isspace s @ v"] show ?thesis by simp
qed

lemma py_strip_hd: "py_strip s \<noteq> [] \<Longrightarrow> \<not> isspace (hd (py_strip s))"
proof -
  assume ne: "py_strip s \<noteq> []"
  let ?u = "dropWhile isspace s"
  let ?d = "dropWhile isspace (rev ?u)"
  have "?u = [] \<Longrightarrow> py_strip s = []"
    by (simp add: py_strip_def del: dropWhile_eq_Nil_conv)
  with ne have u: "?u \<noteq> []" by blast
  then have h: "\<not> isspace (hd ?u)" by (rule hd_dropWhile)
  from ne have d: "?d \<noteq> []" by (simp add: py_strip_def)
  have "rev ?u = takeWhile isspace (rev ?u) @ ?d" by simp
  then have "?u = rev ?d @ rev (takeWhile isspace (rev ?u))" by (metis rev_append rev_rev_ident)
  then have "hd ?u = hd (rev ?d)" using d by (metis hd_append2 rev_is_Nil_conv)
  with h show ?thesis by (simp add: py_strip_def)
qed

lemma py_strip_trims: "trim_of t (py_strip t)"
proof (rule trim_ofI [OF py_strip_decomp])
  show "list_all isspace (takeWhile isspace t)"
    by (auto simp: list_all_iff dest: set_takeWhileD)
  show "list_all isspace (rev (takeWhile isspace (rev (dropWhile isspace t))))"
    by (auto simp: list_all_iff dest: set_takeWhileD)
  show "py_strip t = [] \<or> (\<not> isspace (hd (py_strip t)) \<and> \<not> isspace (last (py_strip t)))"
    using py_strip_hd [of t] py_strip_last [of t] by blast
qed

lemma dropWhile_all: "list_all P xs \<Longrightarrow> dropWhile P (xs @ ys) = dropWhile P ys"
  by (induction xs) simp_all

lemma trim_of_unique:
  assumes "trim_of t r"
  shows "r = py_strip t"
proof -
  from trim_ofD [OF assms] obtain pre post where t: "t = pre @ r @ post"
    and pre: "list_all isspace pre" and post: "list_all isspace post" by blast
  show ?thesis
  proof (cases "r = []")
    case True
    with t pre post have "list_all isspace t" by simp
    then have "py_strip t = []" by (simp add: py_strip_Nil_iff)
    with True show ?thesis by simp
  next
    case False
    with assms have h: "\<not> isspace (hd r)" and l: "\<not> isspace (last r)"
      by (auto simp: trim_of_def)
    have "dropWhile isspace t = dropWhile isspace (r @ post)"
      unfolding t by (rule dropWhile_all [OF pre])
    also have "\<dots> = r @ post" using False h by (cases r) simp_all
    finally have a: "dropWhile isspace t = r @ post" .
    have "list_all isspace (rev post)" using post by (simp add: list_all_iff)
    then have "dropWhile isspace (rev post @ rev r) = dropWhile isspace (rev r)"
      by (rule dropWhile_all)
    also have "\<dots> = rev r" using False l by (cases "rev r") (simp_all add: last_rev [symmetric] hd_rev)
    finally show ?thesis by (simp add: py_strip_def a del: dropWhile_eq_Nil_conv)
  qed
qed

lemma lower_cp_ascii: "ascii_lower c < 128 \<Longrightarrow> lower_cp c = [ascii_lower c]"
  by (auto simp: lower_cp_def ascii_lower_def)

lemma py_lower_ascii: "\<forall>c\<in>set s. ascii_lower c < 128 \<Longrightarrow> py_lower s = map ascii_lower s"
  by (induction s) (simp_all add: py_lower_def lower_cp_ascii)

lemma U_none: "U ''none'' = [110, 111, 110, 101]"
  by (simp add: U_def)

lemma ci_none_lower: "map ascii_lower t = U ''none'' \<Longrightarrow> py_lower t = U ''none''"
proof -
  assume h: "map ascii_lower t = U ''none''"
  have "\<forall>c\<in>set t. ascii_lower c \<in> set (map ascii_lower t)" by simp
  then have "\<forall>c\<in>set t. ascii_lower c < 128" unfolding h U_none by auto
  then show ?thesis using h by (simp add: py_lower_ascii)
qed

section \<open>The missing identifier\<close>

lemma no_identifier_is_missing: "no_identifier v \<Longrightarrow> is_missing v = Inr True"
proof (induction v rule: no_identifier.induct)
  case (3 s)
  then show ?case by (auto simp: py_strip_Nil_iff ci_none_lower)
qed simp_all

text \<open>
  C3. An input that is absent or null, empty, whitespace only, or \<open>none\<close> in any letter
  case once trimmed gives the error "No GitHub ID provided" with count 0, and the list of
  requests is unchanged: no request is made.
\<close>

theorem missing_identifier:
  "no_identifier v \<Longrightarrow>
   scrape_github net log v =
     (Inr \<lparr>error = Some (U ''No GitHub ID provided''), count = 0, repos = []\<rparr>, log)"
  by (simp add: scrape_github_def no_identifier_is_missing error_result_def)

theorem missing_identifier_witness:
  "no_identifier (Scalar (PyStr [32, 78, 111, 78, 69, 9]))
   \<and> scrape_github net_timeout [] (Scalar (PyStr [32, 78, 111, 78, 69, 9])) =
     (Inr \<lparr>error = Some (U ''No GitHub ID provided''), count = 0, repos = []\<rparr>, [])"
proof -
  have h: "no_identifier (Scalar (PyStr [32, 78, 111, 78, 69, 9]))"
    by (simp add: py_strip_def isspace_def ascii_lower_def U_none)
  show ?thesis using h missing_identifier [OF h] by simp
qed

section \<open>The format of the identifier\<close>

lemma re_match_id_strip:
  "re_match_id (py_strip s) \<longleftrightarrow> py_strip s \<noteq> [] \<and> list_all id_char (py_strip s)"
proof (cases "py_strip s = []")
  case True
  then show ?thesis by (simp add: re_match_id_def)
next
  case False
  then have "\<not> isspace (last (py_strip s))" by (rule py_strip_last)
  then have "last (py_strip s) \<noteq> 10" by (auto simp: isspace_def)
  then show ?thesis using False by (simp add: re_match_id_def)
qed

lemma repo_loop_map: "repo_loop github_id rs acc = acc @ map (repo_entry github_id) rs"
  by (induction rs arbitrary: acc) simp_all

lemma raise_for_status_class:
  "raise_for_status r = Inl e \<Longrightarrow> is_RequestException (exn_class_of e)"
  by (auto simp: raise_for_status_def split: if_splits)

text \<open>What the function does with a string that passes both tests of its identifier.\<close>

lemma scrape_github_valid:
  assumes "is_missing (Scalar (PyStr s)) = Inr False"
    and "list_all id_char (py_strip s)"
  shows "scrape_github net log (Scalar (PyStr s)) =
     (case net log (profile_request (py_strip s)) of
        Raised e \<Rightarrow>
          (Inr (error_result
             ((if is_RequestException (exn_class_of e) then U ''Network error: ''
               else U ''Scraping error: '') @ exn_str e)),
           log @ [profile_request (py_strip s)])
      | Returned r \<Rightarrow>
          (case raise_for_status r of
             Inl e \<Rightarrow> (Inr (error_result (U ''Network error: '' @ exn_str e)),
                        log @ [profile_request (py_strip s)])
           | Inr u \<Rightarrow>
               (case content r of
                  Inl e \<Rightarrow>
                    (Inr (error_result
                       ((if is_RequestException (exn_class_of e) then U ''Network error: ''
                         else U ''Scraping error: '') @ exn_str e)),
                     log @ [profile_request (py_strip s)])
                | Inr soup \<Rightarrow>
                    (case bs_find soup (U ''div'') (U ''id'') (U ''user-repositories-list'') of
                       None \<Rightarrow> (Inr (error_result (U ''No repositories found'')),
                                 log @ [profile_request (py_strip s)])
                     | Some repo_list \<Rightarrow>
                         (Inr \<lparr>error = None,
                               count = length (bs_find_all repo_list (U ''li'') (U ''class'') (U ''source'')),
                               repos = map (repo_entry (py_strip s))
                                 (bs_find_all repo_list (U ''li'') (U ''class'') (U ''source''))\<rparr>,
                          log @ [profile_request (py_strip s)])))))"
proof -
  from assms have m: "re_match_id (py_strip s)"
    by (simp add: re_match_id_strip)
  show ?thesis
    using assms(1) m
    by (auto simp: scrape_github_def try_block_def Let_def repo_loop_map
        dest: raise_for_status_class
        split: http_outcome.splits sum.splits option.splits)
qed

lemma scrape_github_invalid:
  assumes "is_missing (Scalar (PyStr s)) = Inr False"
    and "\<not> list_all id_char (py_strip s)"
  shows "scrape_github net log (Scalar (PyStr s)) =
     (Inr (error_result (U ''Invalid GitHub ID format'')), log)"
  using assms by (simp add: scrape_github_def try_block_def re_match_id_strip)

lemma not_id_char_above: "128 \<le> c \<Longrightarrow> \<not> id_char c"
  by (simp add: id_char_def)

lemma valid_not_rejected:
  assumes "is_missing (Scalar (PyStr s)) = Inr False"
    and "list_all id_char (py_strip s)"
  shows "\<exists>d. fst (scrape_github net log (Scalar (PyStr s))) = Inr d
           \<and> error d \<noteq> Some (U ''Invalid GitHub ID format'')
           \<and> error d \<noteq> Some (U ''No GitHub ID provided'')"
  unfolding scrape_github_valid [OF assms]
  by (auto simp: error_result_def U_def split: http_outcome.splits sum.splits option.splits)

lemma valid_one_request:
  assumes "is_missing (Scalar (PyStr s)) = Inr False"
    and "list_all id_char (py_strip s)"
  shows "snd (scrape_github net log (Scalar (PyStr s))) = log @ [profile_request (py_strip s)]"
  unfolding scrape_github_valid [OF assms]
  by (simp split: http_outcome.splits sum.splits option.splits)

text \<open>
  C2. For a string that is not missing: when the trimmed value holds a character outside
  \<open>[A-Za-z0-9-]\<close> (any code point from 128 on is one), the result is the error
  "Invalid GitHub ID format" with count 0 and no request is made; when every character
  of the trimmed value is in the class, the function makes one request whose address
  embeds the trimmed value unchanged, and its result is neither of the two validation
  errors.
\<close>

theorem identifier_format:
  assumes "is_missing (Scalar (PyStr s)) = Inr False"
  shows "((\<exists>c\<in>set (py_strip s). \<not> id_char c) \<longrightarrow>
            scrape_github net log (Scalar (PyStr s)) =
              (Inr \<lparr>error = Some (U ''Invalid GitHub ID format''), count = 0, repos = []\<rparr>, log))
       \<and> ((\<exists>c\<in>set (py_strip s). 128 \<le> c) \<longrightarrow>
            scrape_github net log (Scalar (PyStr s)) =
              (Inr \<lparr>error = Some (U ''Invalid GitHub ID format''), count = 0, repos = []\<rparr>, log))
       \<and> (list_all id_char (py_strip s) \<longrightarrow>
            snd (scrape_github net log (Scalar (PyStr s))) =
              log @ [\<lparr>url = U ''https://github.com/'' @ py_strip s @ U ''?tab=repositories'',
                       user_agent = user_agent_header, timeout = 10\<rparr>]
            \<and> (\<exists>d. fst (scrape_github net log (Scalar (PyStr s))) = Inr d
                  \<and> error d \<noteq> Some (U ''Invalid GitHub ID format'')
                  \<and> error d \<noteq> Some (U ''No GitHub ID provided'')))"
proof (intro conjI impI)
  assume "\<exists>c\<in>set (py_strip s). \<not> id_char c"
  then have "\<not> list_all id_char (py_strip s)" by (simp add: list_all_iff)
  then show "scrape_github net log (Scalar (PyStr s)) =
      (Inr \<lparr>error = Some (U ''Invalid GitHub ID format''), count = 0, repos = []\<rparr>, log)"
    using scrape_github_invalid [OF assms] by (simp add: error_result_def)
next
  assume "\<exists>c\<in>set (py_strip s). 128 \<le> c"
  then have "\<not> list_all id_char (py_strip s)"
    by (auto simp: list_all_iff dest: not_id_char_above)
  then show "scrape_github net log (Scalar (PyStr s)) =
      (Inr \<lparr>error = Some (U ''Invalid GitHub ID format''), count = 0, repos = []\<rparr>, log)"
    using scrape_github_invalid [OF assms] by (simp add: error_result_def)
next
  assume "list_all id_char (py_strip s)"
  then have v: "list_all id_char (py_strip s)" by (simp add: list_all_iff)
  show "snd (scrape_github net log (Scalar (PyStr s))) =
      log @ [\<lparr>url = U ''https://github.com/'' @ py_strip s @ U ''?tab=repositories'',
               user_agent = user_agent_header, timeout = 10\<rparr>]"
    using valid_one_request [OF assms v] by (simp add: profile_request_def)
  show "\<exists>d. fst (scrape_github net log (Scalar (PyStr s))) = Inr d
           \<and> error d \<noteq> Some (U ''Invalid GitHub ID format'')
           \<and> error d \<noteq> Some (U ''No GitHub ID provided'')"
    by (rule valid_not_rejected [OF assms v])
qed

lemma U_octocat: "U ''octocat'' = [111, 99, 116, 111, 99, 97, 116]"
  by (simp add: U_def)

theorem identifier_format_witness:
  "is_missing (Scalar (PyStr [32, 111, 99, 116, 111, 233])) = Inr False
   \<and> (\<exists>c\<in>set (py_strip [32, 111, 99, 116, 111, 233]). \<not> id_char c)
   \<and> (\<exists>c\<in>set (py_strip [32, 111, 99, 116, 111, 233]). 128 \<le> c)
   \<and> scrape_github net_timeout [] (Scalar (PyStr [32, 111, 99, 116, 111, 233])) =
       (Inr \<lparr>error = Some (U ''Invalid GitHub ID format''), count = 0, repos = []\<rparr>, [])
   \<and> is_missing (Scalar (PyStr (32 # U ''octocat''))) = Inr False
   \<and> list_all id_char (py_strip (32 # U ''octocat''))
   \<and> snd (scrape_github net_timeout [] (Scalar (PyStr (32 # U ''octocat'')))) =
       [\<lparr>url = U ''https://github.com/'' @ U ''octocat'' @ U ''?tab=repositories'',
         user_agent = user_agent_header, timeout = 10\<rparr>]"
proof -
  have a: "is_missing (Scalar (PyStr [32, 111, 99, 116, 111, 233])) = Inr False"
    by (simp add: py_strip_def isspace_def py_lower_def lower_cp_def U_none)
  have b: "\<exists>c\<in>set (py_strip [32, 111, 99, 116, 111, 233]). \<not> id_char c"
    by (simp add: py_strip_def isspace_def id_char_def)
  have b': "\<exists>c\<in>set (py_strip [32, 111, 99, 116, 111, 233]). 128 \<le> c"
    by (simp add: py_strip_def isspace_def)
  have s: "py_strip (32 # U ''octocat'') = U ''octocat''"
    by (simp add: py_strip_def isspace_def U_octocat)
  have c: "is_missing (Scalar (PyStr (32 # U ''octocat''))) = Inr False"
    by (simp add: s) (simp add: U_octocat U_none py_lower_def lower_cp_def)
  have d: "list_all id_char (py_strip (32 # U ''octocat''))"
    by (simp add: s) (simp add: U_octocat id_char_def)
  show ?thesis
    using a b b' c d identifier_format [OF a, of net_timeout "[]"]
      identifier_format [OF c, of net_timeout "[]"]
    by (simp add: s)
qed

section \<open>Values that are not strings\<close>

lemma nat_digits_set: "set (nat_digits n) \<subseteq> {48..57}"
proof (induction n rule: nat_digits.induct)
  case (1 n)
  show ?case
  proof (cases "n < 10")
    case True
    then show ?thesis by (subst nat_digits.simps) auto
  next
    case False
    have "n mod 10 < 10" by simp
    then have "48 + n mod 10 \<in> {48..57}" by auto
    with False 1 show ?thesis by (subst nat_digits.simps) auto
  qed
qed

lemma nat_digits_ne: "nat_digits n \<noteq> []"
  by (subst nat_digits.simps) simp

lemma int_str_set: "set (int_str i) \<subseteq> insert 45 {48..57}"
  using nat_digits_set by (auto simp: int_str_def)

lemma int_str_ne: "int_str i \<noteq> []"
  by (simp add: int_str_def nat_digits_ne)

lemma dropWhile_none: "\<forall>c\<in>set t. \<not> P c \<Longrightarrow> dropWhile P t = t"
  by (cases t) auto

lemma py_strip_no_space: "\<forall>c\<in>set s. \<not> isspace c \<Longrightarrow> py_strip s = s"
  by (simp add: py_strip_def dropWhile_none)

lemma int_str_no_space: "\<forall>c\<in>set (int_str i). \<not> isspace c"
  using int_str_set [of i] by (auto simp: isspace_def)

lemma int_survives: "i \<noteq> 0 \<Longrightarrow> is_missing (Scalar (PyInt i)) = Inr False"
proof -
  assume nz: "i \<noteq> 0"
  have s: "py_strip (int_str i) = int_str i"
    by (rule py_strip_no_space) (rule int_str_no_space)
  have "\<forall>c\<in>set (int_str i). ascii_lower c < 128"
    using int_str_set [of i] by (auto simp: ascii_lower_def)
  then have l: "py_lower (int_str i) = map ascii_lower (int_str i)" by (rule py_lower_ascii)
  have "110 \<notin> set (map ascii_lower (int_str i))"
    using int_str_set [of i] by (auto simp: ascii_lower_def)
  then have "map ascii_lower (int_str i) \<noteq> U ''none''" unfolding U_none by auto
  then show ?thesis using nz by (simp add: s l int_str_ne)
qed

lemma True_survives: "is_missing (Scalar (PyBool True)) = Inr False"
  by (simp add: U_def py_strip_def isspace_def py_lower_def lower_cp_def)

text \<open>
  C10. A value that is not a \<open>str\<close> and for which the test of line 22 is false (a Python
  int or bool, a float, a numpy number, any object of a cell) is a scalar;
  \<open>.strip()\<close> raises inside the \<open>try\<close> block and the result is the dictionary
  "Scraping error: 'T' object has no attribute 'strip'" for its type \<open>T\<close>, with count 0,
  not "Invalid GitHub ID format". No request is made.
\<close>

theorem non_string_identifier:
  assumes "is_missing v = Inr False" and "\<forall>s. v \<noteq> Scalar (PyStr s)"
  shows "\<exists>x. v = Scalar x
     \<and> scrape_github net log v =
         (Inr \<lparr>error = Some (U ''Scraping error: '' @ quoted (type_name x)
                   @ U '' object has no attribute '' @ quoted (U ''strip'')),
               count = 0, repos = []\<rparr>, log)"
proof (cases v)
  case (Scalar x)
  with assms(2) have ns: "\<forall>s. x \<noteq> PyStr s" by simp
  then have st: "strip_method (Scalar x) =
      Inl (Exn AttributeError (no_attribute_msg (type_name x) (U ''strip'')))"
    by (cases x) simp_all
  show ?thesis
    using assms(1) unfolding Scalar
    by (simp add: scrape_github_def try_block_def st error_result_def no_attribute_msg_def)
next
  case (Series xs)
  with assms(1) show ?thesis by simp
qed

lemma other_survives:
  "is_missing (Scalar np_int64_5) = Inr False" "is_missing (Scalar float_1_5) = Inr False"
  by (simp_all add: np_int64_5_def float_1_5_def U_def py_strip_def isspace_def py_lower_def
      lower_cp_def)

theorem non_string_identifier_witness:
  "is_missing (Scalar (PyInt 5)) = Inr False \<and> (\<forall>s. Scalar (PyInt 5) \<noteq> Scalar (PyStr s))
   \<and> scrape_github net_timeout [] (Scalar (PyInt 5)) =
         (Inr \<lparr>error = Some (U ''Scraping error: '' @ quoted (U ''int'')
                   @ U '' object has no attribute '' @ quoted (U ''strip'')),
               count = 0, repos = []\<rparr>, [])
   \<and> is_missing (Scalar (PyBool True)) = Inr False
   \<and> scrape_github net_timeout [] (Scalar (PyBool True)) =
         (Inr \<lparr>error = Some (U ''Scraping error: '' @ quoted (U ''bool'')
                   @ U '' object has no attribute '' @ quoted (U ''strip'')),
               count = 0, repos = []\<rparr>, [])
   \<and> is_missing (Scalar np_int64_5) = Inr False
   \<and> scrape_github net_timeout [] (Scalar np_int64_5) =
         (Inr \<lparr>error = Some (U ''Scraping error: '' @ quoted (U ''numpy.int64'')
                   @ U '' object has no attribute '' @ quoted (U ''strip'')),
               count = 0, repos = []\<rparr>, [])
   \<and> is_missing (Scalar float_1_5) = Inr False
   \<and> scrape_github net_timeout [] (Scalar float_1_5) =
         (Inr \<lparr>error = Some (U ''Scraping error: '' @ quoted (U ''float'')
                   @ U '' object has no attribute '' @ quoted (U ''strip'')),
               count = 0, repos = []\<rparr>, [])"
proof -
  have a: "is_missing (Scalar (PyInt 5)) = Inr False" by (rule int_survives) simp
  have b: "\<forall>s. Scalar (PyInt 5) \<noteq> Scalar (PyStr s)" by simp
  have c: "\<forall>s. Scalar (PyBool True) \<noteq> Scalar (PyStr s)" by simp
  have d: "\<forall>s. Scalar np_int64_5 \<noteq> Scalar (PyStr s)" by (simp add: np_int64_5_def)
  have e: "\<forall>s. Scalar float_1_5 \<noteq> Scalar (PyStr s)" by (simp add: float_1_5_def)
  have tn: "type_name np_int64_5 = U ''numpy.int64''" "type_name float_1_5 = U ''float''"
    by (simp_all add: np_int64_5_def float_1_5_def)
  show ?thesis
    using a b non_string_identifier [OF a b, of net_timeout "[]"]
      True_survives non_string_identifier [OF True_survives c, of net_timeout "[]"]
      other_survives non_string_identifier [OF other_survives(1) d, of net_timeout "[]"]
      non_string_identifier [OF other_survives(2) e, of net_timeout "[]"]
    by (simp add: tn)
qed

section \<open>Failures of the request\<close>

lemma octocat_valid:
  "is_missing (Scalar (PyStr (U ''octocat''))) = Inr False"
  "py_strip (U ''octocat'') = U ''octocat''"
  "list_all id_char (U ''octocat'')"
  by (simp_all add: U_octocat U_none py_strip_def isspace_def py_lower_def lower_cp_def id_char_def)

text \<open>
  C4 as stated fails for a status that is neither 2xx nor 4xx/5xx. A response with status
  304 passes \<open>raise_for_status()\<close>, the page is parsed, and the result is "No
  repositories found", not a network error.
\<close>

theorem non_2xx_status_counterexample:
  "status_code resp_not_modified = 304
   \<and> scrape_github net_not_modified [] (Scalar (PyStr (U ''octocat''))) =
       (Inr \<lparr>error = Some (U ''No repositories found''), count = 0, repos = []\<rparr>,
        [profile_request (U ''octocat'')])"
proof -
  have v: "list_all id_char (py_strip (U ''octocat''))" by (simp add: octocat_valid)
  have f: "bs_find (Tag (U ''[document]'') [] []) (U ''div'') (U ''id'') (U ''user-repositories-list'') = None"
    by (simp add: bs_find_def bs_find_all_def)
  show ?thesis
    unfolding scrape_github_valid [OF octocat_valid(1) v]
    by (simp add: octocat_valid net_not_modified_def resp_not_modified_def raise_for_status_def f
        error_result_def)
qed

text \<open>
  C4, amended. With a valid identifier, when the GET raises a \<open>RequestException\<close> or
  returns a 4xx or 5xx status (404 is one), the result is "Network error: " followed by
  the cause, with count 0, and exactly one request has been made.
\<close>

theorem network_failure:
  assumes "is_missing (Scalar (PyStr s)) = Inr False"
    and "list_all id_char (py_strip s)"
  shows "(\<forall>e. net log (profile_request (py_strip s)) = Raised e
              \<and> is_RequestException (exn_class_of e) \<longrightarrow>
            scrape_github net log (Scalar (PyStr s)) =
              (Inr \<lparr>error = Some (U ''Network error: '' @ exn_str e), count = 0, repos = []\<rparr>,
               log @ [profile_request (py_strip s)]))
       \<and> (\<forall>r. net log (profile_request (py_strip s)) = Returned r
              \<and> 400 \<le> status_code r \<and> status_code r < 600 \<longrightarrow>
            scrape_github net log (Scalar (PyStr s)) =
              (Inr \<lparr>error = Some (U ''Network error: '' @ nat_digits (status_code r)
                       @ (if status_code r < 500 then U '' Client Error: ''
                          else U '' Server Error: '')
                       @ reason r @ U '' for url: '' @ resp_url r),
                    count = 0, repos = []\<rparr>,
               log @ [profile_request (py_strip s)]))"
proof -
  from assms(2) have v: "list_all id_char (py_strip s)" by (simp add: list_all_iff)
  show ?thesis
    unfolding scrape_github_valid [OF assms(1) v]
    by (auto simp: error_result_def raise_for_status_def)
qed

theorem network_failure_witness:
  "is_missing (Scalar (PyStr (U ''octocat''))) = Inr False
   \<and> list_all id_char (py_strip (U ''octocat''))
   \<and> net_timeout [] (profile_request (py_strip (U ''octocat''))) = Raised (Exn Timeout (U ''timed out''))
   \<and> is_RequestException (exn_class_of (Exn Timeout (U ''timed out'')))
   \<and> scrape_github net_timeout [] (Scalar (PyStr (U ''octocat''))) =
       (Inr \<lparr>error = Some (U ''Network error: '' @ U ''timed out''), count = 0, repos = []\<rparr>,
        [profile_request (U ''octocat'')])
   \<and> net_not_found [] (profile_request (py_strip (U ''octocat''))) = Returned resp_not_found
   \<and> 400 \<le> status_code resp_not_found \<and> status_code resp_not_found < 600
   \<and> scrape_github net_not_found [] (Scalar (PyStr (U ''octocat''))) =
       (Inr \<lparr>error = Some (U ''Network error: '' @ U ''404 Client Error: Not Found for url: ''
                 @ U ''https://github.com/octocat?tab=repositories''),
             count = 0, repos = []\<rparr>,
        [profile_request (U ''octocat'')])"
proof -
  have b: "list_all id_char (py_strip (U ''octocat''))"
    using octocat_valid by (simp add: list_all_iff)
  have d: "nat_digits 404 = U ''404''"
    by (simp add: nat_digits.simps U_def)
  have t: "net_timeout [] (profile_request (py_strip (U ''octocat''))) = Raised (Exn Timeout (U ''timed out''))"
    by (simp add: net_timeout_def)
  have n: "net_not_found [] (profile_request (py_strip (U ''octocat''))) = Returned resp_not_found"
    by (simp add: net_not_found_def)
  have c: "400 \<le> status_code resp_not_found \<and> status_code resp_not_found < 600"
    by (simp add: resp_not_found_def)
  have m: "U ''404'' @ U '' Client Error: '' @ U ''Not Found'' @ U '' for url: '' = U ''404 Client Error: Not Found for url: ''"
    by (simp add: U_def)
  from network_failure [OF octocat_valid(1) b, of net_timeout "[]"] t
  have r1: "scrape_github net_timeout [] (Scalar (PyStr (U ''octocat''))) =
       (Inr \<lparr>error = Some (U ''Network error: '' @ U ''timed out''), count = 0, repos = []\<rparr>,
        [profile_request (U ''octocat'')])"
    by (simp add: octocat_valid)
  from network_failure [OF octocat_valid(1) b, of net_not_found "[]"] n c
  have r2: "scrape_github net_not_found [] (Scalar (PyStr (U ''octocat''))) =
       (Inr \<lparr>error = Some (U ''Network error: '' @ U ''404 Client Error: Not Found for url: ''
                 @ U ''https://github.com/octocat?tab=repositories''),
             count = 0, repos = []\<rparr>,
        [profile_request (U ''octocat'')])"
    using m by (simp add: octocat_valid d resp_not_found_def)
  show ?thesis using octocat_valid(1) b t n c r1 r2 by simp
qed

section \<open>The repository list\<close>

text \<open>
  C5. With a valid identifier, a 2xx response whose parsed body has no
  \<open>div\<close> with id \<open>user-repositories-list\<close> gives the error "No repositories found"
  with count 0.
\<close>

theorem no_repository_list:
  assumes "is_missing (Scalar (PyStr s)) = Inr False"
    and "list_all id_char (py_strip s)"
    and "net log (profile_request (py_strip s)) = Returned r"
    and "200 \<le> status_code r" and "status_code r < 300"
    and "content r = Inr soup"
    and "bs_find soup (U ''div'') (U ''id'') (U ''user-repositories-list'') = None"
  shows "scrape_github net log (Scalar (PyStr s)) =
           (Inr \<lparr>error = Some (U ''No repositories found''), count = 0, repos = []\<rparr>,
            log @ [profile_request (py_strip s)])"
proof -
  from assms(2) have v: "list_all id_char (py_strip s)" by (simp add: list_all_iff)
  from assms(4,5) have ok: "raise_for_status r = Inr ()" by (simp add: raise_for_status_def)
  show ?thesis
    unfolding scrape_github_valid [OF assms(1) v]
    by (simp add: assms(3,6,7) ok error_result_def)
qed

lemma find_container_empty:
  "bs_find page_empty (U ''div'') (U ''id'') (U ''user-repositories-list'') = None"
  by (simp add: bs_find_def bs_find_all_def page_empty_def)

theorem no_repository_list_witness:
  "is_missing (Scalar (PyStr (U ''octocat''))) = Inr False
   \<and> list_all id_char (py_strip (U ''octocat''))
   \<and> net_page page_empty [] (profile_request (py_strip (U ''octocat''))) =
       Returned (resp_page page_empty)
   \<and> 200 \<le> status_code (resp_page page_empty) \<and> status_code (resp_page page_empty) < 300
   \<and> content (resp_page page_empty) = Inr page_empty
   \<and> bs_find page_empty (U ''div'') (U ''id'') (U ''user-repositories-list'') = None
   \<and> scrape_github (net_page page_empty) [] (Scalar (PyStr (U ''octocat''))) =
           (Inr \<lparr>error = Some (U ''No repositories found''), count = 0, repos = []\<rparr>,
            [profile_request (U ''octocat'')])"
proof -
  have b: "list_all id_char (py_strip (U ''octocat''))"
    using octocat_valid by (simp add: list_all_iff)
  have n: "net_page page_empty [] (profile_request (py_strip (U ''octocat''))) =
       Returned (resp_page page_empty)"
    by (simp add: net_page_def)
  have lo: "200 \<le> status_code (resp_page page_empty)" by (simp add: resp_page_def)
  have hi: "status_code (resp_page page_empty) < 300" by (simp add: resp_page_def)
  have c: "content (resp_page page_empty) = Inr page_empty" by (simp add: resp_page_def)
  show ?thesis
    using octocat_valid(1) b n lo hi c find_container_empty
      no_repository_list [where net = "net_page page_empty" and log = "[]",
        OF octocat_valid(1) b n lo hi c find_container_empty]
    by (simp add: octocat_valid)
qed

text \<open>
  C6. With a valid identifier and a 2xx response whose page holds the container, the
  result is a success: one record for each \<open>li\<close> of class \<open>source\<close> below the container,
  in document order, the other nodes skipped, nothing sorted or merged, and the count is
  the number of records. With no such entry the success holds the empty list and count 0.
\<close>

theorem source_entries_in_order:
  assumes "is_missing (Scalar (PyStr s)) = Inr False"
    and "list_all id_char (py_strip s)"
    and "net log (profile_request (py_strip s)) = Returned r"
    and "200 \<le> status_code r" and "status_code r < 300"
    and "content r = Inr soup"
    and "bs_find soup (U ''div'') (U ''id'') (U ''user-repositories-list'') = Some repo_list"
  shows "scrape_github net log (Scalar (PyStr s)) =
           (Inr \<lparr>error = None,
                 count = length (filter is_source_entry (descendants repo_list)),
                 repos = map (repo_entry (py_strip s))
                           (filter is_source_entry (descendants repo_list))\<rparr>,
            log @ [profile_request (py_strip s)])
       \<and> (filter is_source_entry (descendants repo_list) = [] \<longrightarrow>
            scrape_github net log (Scalar (PyStr s)) =
              (Inr \<lparr>error = None, count = 0, repos = []\<rparr>,
               log @ [profile_request (py_strip s)]))"
proof -
  from assms(2) have v: "list_all id_char (py_strip s)" by (simp add: list_all_iff)
  from assms(4,5) have ok: "raise_for_status r = Inr ()" by (simp add: raise_for_status_def)
  have e: "bs_find_all repo_list (U ''li'') (U ''class'') (U ''source'') =
      filter is_source_entry (descendants repo_list)"
    by (simp add: bs_find_all_def is_source_entry_def [abs_def])
  have main: "scrape_github net log (Scalar (PyStr s)) =
           (Inr \<lparr>error = None,
                 count = length (filter is_source_entry (descendants repo_list)),
                 repos = map (repo_entry (py_strip s))
                           (filter is_source_entry (descendants repo_list))\<rparr>,
            log @ [profile_request (py_strip s)])"
    unfolding scrape_github_valid [OF assms(1) v]
    by (simp add: assms(3,6,7) ok e)
  from main show ?thesis by simp
qed

lemma find_container_page_of:
  "bs_find (page_of es) (U ''div'') (U ''id'') (U ''user-repositories-list'') = Some (list_of es)"
  by (simp add: bs_find_def bs_find_all_def page_of_def list_of_def)

lemma descendants_list_of: "descendants (list_of es) = concat (map (\<lambda>c. c # descendants c) es)"
  by (simp add: list_of_def)

lemma source_entry_fixtures:
  "is_source_entry entry_full" "\<not> is_source_entry entry_fork" "is_source_entry entry_bare"
  "\<not> is_source_entry (Text t)"
  "\<not> is_source_entry (Tag (U ''a'') as cs)"
  "\<not> is_source_entry (Tag (U ''span'') as cs)"
  "\<not> is_source_entry (Tag (U ''p'') as cs)"
  by (simp_all add: is_source_entry_def entry_full_def entry_fork_def entry_bare_def U_def)

lemma descendants_fixtures:
  "descendants entry_fork =
     [Tag (U ''a'') [(U ''itemprop'', AStr (U ''name codeRepository''))] [Text (U ''copy'')],
      Text (U ''copy'')]"
  "descendants entry_bare =
     [Tag (U ''p'') [(U ''itemprop'', AStr (U ''description''))] [Text (U ''notes'')],
      Text (U ''notes'')]"
  "descendants entry_full =
     [Tag (U ''a'') [(U ''itemprop'', AStr (U ''name codeRepository''))] [Text (U '' hello '')],
      Text (U '' hello ''),
      Tag (U ''span'') [(U ''itemprop'', AStr (U ''programmingLanguage''))] [Text (U ''C'')],
      Text (U ''C'')]"
  by (simp_all add: entry_fork_def entry_bare_def entry_full_def)

lemma forks_only_no_source:
  "filter is_source_entry (descendants (list_of [entry_fork])) = []"
  by (simp add: descendants_list_of descendants_fixtures source_entry_fixtures)

lemma source_entries_fixture:
  "filter is_source_entry (descendants (list_of [entry_full, entry_fork, entry_bare])) =
     [entry_full, entry_bare]"
  by (simp add: descendants_list_of descendants_fixtures source_entry_fixtures)

theorem source_entries_in_order_witness:
  "is_missing (Scalar (PyStr (U ''octocat''))) = Inr False
   \<and> list_all id_char (py_strip (U ''octocat''))
   \<and> net_page (page_of [entry_fork]) [] (profile_request (py_strip (U ''octocat''))) =
       Returned (resp_page (page_of [entry_fork]))
   \<and> 200 \<le> status_code (resp_page (page_of [entry_fork]))
   \<and> status_code (resp_page (page_of [entry_fork])) < 300
   \<and> content (resp_page (page_of [entry_fork])) = Inr (page_of [entry_fork])
   \<and> bs_find (page_of [entry_fork]) (U ''div'') (U ''id'') (U ''user-repositories-list'') =
       Some (list_of [entry_fork])
   \<and> filter is_source_entry (descendants (list_of [entry_fork])) = []
   \<and> scrape_github (net_page (page_of [entry_fork])) [] (Scalar (PyStr (U ''octocat''))) =
       (Inr \<lparr>error = None, count = 0, repos = []\<rparr>, [profile_request (U ''octocat'')])
   \<and> scrape_github (net_page (page_of [entry_full, entry_fork, entry_bare])) []
         (Scalar (PyStr (U ''octocat''))) =
       (Inr \<lparr>error = None, count = 2,
             repos = [repo_entry (U ''octocat'') entry_full, repo_entry (U ''octocat'') entry_bare]\<rparr>,
        [profile_request (U ''octocat'')])"
proof -
  have b: "list_all id_char (py_strip (U ''octocat''))"
    using octocat_valid by (simp add: list_all_iff)
  have n: "net_page page [] (profile_request (py_strip (U ''octocat''))) =
       Returned (resp_page page)" for page
    by (simp add: net_page_def)
  have lo: "200 \<le> status_code (resp_page page)" for page by (simp add: resp_page_def)
  have hi: "status_code (resp_page page) < 300" for page by (simp add: resp_page_def)
  have c: "content (resp_page page) = Inr page" for page by (simp add: resp_page_def)
  note one = source_entries_in_order [where net = "net_page (page_of [entry_fork])" and log = "[]",
      OF octocat_valid(1) b n lo hi c find_container_page_of]
  note two = source_entries_in_order
      [where net = "net_page (page_of [entry_full, entry_fork, entry_bare])" and log = "[]",
      OF octocat_valid(1) b n lo hi c find_container_page_of]
  have r1: "scrape_github (net_page (page_of [entry_fork])) [] (Scalar (PyStr (U ''octocat''))) =
       (Inr \<lparr>error = None, count = 0, repos = []\<rparr>, [profile_request (U ''octocat'')])"
    using one forks_only_no_source by (simp add: octocat_valid)
  have r2: "scrape_github (net_page (page_of [entry_full, entry_fork, entry_bare])) []
         (Scalar (PyStr (U ''octocat''))) =
       (Inr \<lparr>error = None, count = 2,
             repos = [repo_entry (U ''octocat'') entry_full, repo_entry (U ''octocat'') entry_bare]\<rparr>,
        [profile_request (U ''octocat'')])"
    using two by (simp add: octocat_valid source_entries_fixture)
  show ?thesis
    using octocat_valid(1) b n lo hi c find_container_page_of forks_only_no_source r1 r2
    by simp
qed

section \<open>The fields of a record\<close>

lemma repo_entry_trimmed:
  "case bs_find e (U ''a'') (U ''itemprop'') (U ''name codeRepository'') of
     None \<Rightarrow> name (repo_entry g e) = U ''Unknown''
   | Some el \<Rightarrow> trim_of (get_text el) (name (repo_entry g e))"
  "link (repo_entry g e) =
     (if name (repo_entry g e) \<noteq> U ''Unknown''
      then U ''https://github.com/'' @ g @ U ''/'' @ name (repo_entry g e) else [])"
  "case bs_find e (U ''span'') (U ''itemprop'') (U ''programmingLanguage'') of
     None \<Rightarrow> language (repo_entry g e) = U ''Unknown''
   | Some el \<Rightarrow> trim_of (get_text el) (language (repo_entry g e))"
  "case bs_find e (U ''p'') (U ''itemprop'') (U ''description'') of
     None \<Rightarrow> description (repo_entry g e) = []
   | Some el \<Rightarrow> trim_of (get_text el) (description (repo_entry g e))"
  by (simp_all add: repo_entry_def Let_def py_strip_trims split: option.splits)

text \<open>
  C1. In a successful result the record at position \<open>i\<close> comes from the \<open>i\<close>-th source
  entry, and its four fields are filled each on its own. The name is the text of the name
  element without its surrounding whitespace, or "Unknown" when the entry has no such
  element. The link is the address built from the identifier (the input without its
  surrounding whitespace) and the name exactly when the name is not "Unknown", else
  empty. The language is the trimmed text of the language element, or "Unknown"; the
  description is the trimmed text of the description element, or empty.
\<close>

theorem repository_fields:
  assumes "is_missing (Scalar (PyStr s)) = Inr False"
    and "trim_of s ident"
    and "list_all id_char ident"
    and "net log (profile_request ident) = Returned r"
    and "200 \<le> status_code r" and "status_code r < 300"
    and "content r = Inr soup"
    and "bs_find soup (U ''div'') (U ''id'') (U ''user-repositories-list'') = Some repo_list"
    and "i < length (filter is_source_entry (descendants repo_list))"
  shows "\<exists>d. fst (scrape_github net log (Scalar (PyStr s))) = Inr d
     \<and> length (repos d) = length (filter is_source_entry (descendants repo_list))
     \<and> (case bs_find (filter is_source_entry (descendants repo_list) ! i)
                (U ''a'') (U ''itemprop'') (U ''name codeRepository'') of
           None \<Rightarrow> name (repos d ! i) = U ''Unknown''
         | Some el \<Rightarrow> trim_of (get_text el) (name (repos d ! i)))
     \<and> link (repos d ! i) =
         (if name (repos d ! i) \<noteq> U ''Unknown''
          then U ''https://github.com/'' @ ident @ U ''/'' @ name (repos d ! i) else [])
     \<and> (case bs_find (filter is_source_entry (descendants repo_list) ! i)
                (U ''span'') (U ''itemprop'') (U ''programmingLanguage'') of
           None \<Rightarrow> language (repos d ! i) = U ''Unknown''
         | Some el \<Rightarrow> trim_of (get_text el) (language (repos d ! i)))
     \<and> (case bs_find (filter is_source_entry (descendants repo_list) ! i)
                (U ''p'') (U ''itemprop'') (U ''description'') of
           None \<Rightarrow> description (repos d ! i) = []
         | Some el \<Rightarrow> trim_of (get_text el) (description (repos d ! i)))"
proof -
  have id: "ident = py_strip s" by (rule trim_of_unique [OF assms(2)])
  from assms(3) have v: "list_all id_char (py_strip s)" by (simp add: id)
  from assms(5,6) have ok: "raise_for_status r = Inr ()" by (simp add: raise_for_status_def)
  have e: "bs_find_all repo_list (U ''li'') (U ''class'') (U ''source'') =
      filter is_source_entry (descendants repo_list)"
    by (simp add: bs_find_all_def is_source_entry_def [abs_def])
  let ?es = "filter is_source_entry (descendants repo_list)"
  let ?d = "\<lparr>error = None, count = length ?es, repos = map (repo_entry ident) ?es\<rparr>"
  have res: "fst (scrape_github net log (Scalar (PyStr s))) = Inr ?d"
    unfolding scrape_github_valid [OF assms(1) v]
    using assms(4,7,8) by (simp add: id ok e)
  have nth: "repos ?d ! i = repo_entry ident (?es ! i)"
    using assms(9) by simp
  show ?thesis
    unfolding res
    apply (rule exI [of _ ?d])
    apply (simp only: sum.inject nth simp_thms)
    apply (intro conjI)
        apply simp
       apply (rule repo_entry_trimmed(1))
      apply (rule repo_entry_trimmed(2))
     apply (rule repo_entry_trimmed(3))
    apply (rule repo_entry_trimmed(4))
    done
qed

lemma find_in_entry_full:
  "bs_find entry_full (U ''a'') (U ''itemprop'') (U ''name codeRepository'') =
     Some (Tag (U ''a'') [(U ''itemprop'', AStr (U ''name codeRepository''))] [Text (U '' hello '')])"
  "bs_find entry_full (U ''span'') (U ''itemprop'') (U ''programmingLanguage'') =
     Some (Tag (U ''span'') [(U ''itemprop'', AStr (U ''programmingLanguage''))] [Text (U ''C'')])"
  "bs_find entry_full (U ''p'') (U ''itemprop'') (U ''description'') = None"
  by (simp_all add: bs_find_def bs_find_all_def descendants_fixtures U_def)

lemma find_in_entry_bare:
  "bs_find entry_bare (U ''a'') (U ''itemprop'') (U ''name codeRepository'') = None"
  "bs_find entry_bare (U ''span'') (U ''itemprop'') (U ''programmingLanguage'') = None"
  "bs_find entry_bare (U ''p'') (U ''itemprop'') (U ''description'') =
     Some (Tag (U ''p'') [(U ''itemprop'', AStr (U ''description''))] [Text (U ''notes'')])"
  by (simp_all add: bs_find_def bs_find_all_def descendants_fixtures U_def)

lemma get_text_single: "get_text (Tag n as [Text t]) = t"
  by (simp add: get_text_def)

lemma strip_samples:
  "py_strip (U '' hello '') = U ''hello''" "py_strip (U ''C'') = U ''C''"
  "py_strip (U ''notes'') = U ''notes''" "py_strip (U '' octocat '') = U ''octocat''"
  by (simp_all add: py_strip_def isspace_def U_def)

theorem repository_fields_witness:
  "is_missing (Scalar (PyStr (U '' octocat ''))) = Inr False
   \<and> trim_of (U '' octocat '') (U ''octocat'')
   \<and> list_all id_char (U ''octocat'')
   \<and> net_page (page_of [entry_full, entry_fork, entry_bare]) [] (profile_request (U ''octocat'')) =
       Returned (resp_page (page_of [entry_full, entry_fork, entry_bare]))
   \<and> 200 \<le> status_code (resp_page (page_of [entry_full, entry_fork, entry_bare]))
   \<and> status_code (resp_page (page_of [entry_full, entry_fork, entry_bare])) < 300
   \<and> content (resp_page (page_of [entry_full, entry_fork, entry_bare])) =
       Inr (page_of [entry_full, entry_fork, entry_bare])
   \<and> bs_find (page_of [entry_full, entry_fork, entry_bare]) (U ''div'') (U ''id'')
        (U ''user-repositories-list'') = Some (list_of [entry_full, entry_fork, entry_bare])
   \<and> 1 < length (filter is_source_entry (descendants (list_of [entry_full, entry_fork, entry_bare])))
   \<and> (\<exists>d. fst (scrape_github (net_page (page_of [entry_full, entry_fork, entry_bare])) []
                 (Scalar (PyStr (U '' octocat '')))) = Inr d
          \<and> length (repos d) = 2
          \<and> name (repos d ! 0) = U ''hello''
          \<and> link (repos d ! 0) = U ''https://github.com/octocat/hello''
          \<and> language (repos d ! 0) = U ''C'' \<and> description (repos d ! 0) = []
          \<and> name (repos d ! 1) = U ''Unknown'' \<and> link (repos d ! 1) = []
          \<and> language (repos d ! 1) = U ''Unknown'' \<and> description (repos d ! 1) = U ''notes'')"
proof -
  let ?page = "page_of [entry_full, entry_fork, entry_bare]"
  let ?es = "filter is_source_entry (descendants (list_of [entry_full, entry_fork, entry_bare]))"
  let ?run = "fst (scrape_github (net_page ?page) [] (Scalar (PyStr (U '' octocat ''))))"
  have a: "is_missing (Scalar (PyStr (U '' octocat ''))) = Inr False"
    by (simp add: strip_samples) (simp add: U_def py_lower_def lower_cp_def)
  have b: "trim_of (U '' octocat '') (U ''octocat'')"
    using py_strip_trims [of "U '' octocat ''"] by (simp add: strip_samples)
  have c: "list_all id_char (U ''octocat'')" by (rule octocat_valid(3))
  have n: "net_page ?page [] (profile_request (U ''octocat'')) = Returned (resp_page ?page)"
    by (simp add: net_page_def)
  have lo: "200 \<le> status_code (resp_page ?page)" by (simp add: resp_page_def)
  have hi: "status_code (resp_page ?page) < 300" by (simp add: resp_page_def)
  have ct: "content (resp_page ?page) = Inr ?page" by (simp add: resp_page_def)
  have i1: "1 < length ?es" by (simp add: source_entries_fixture)
  have i0: "0 < length ?es" by (simp add: source_entries_fixture)
  note at0 = repository_fields [where net = "net_page ?page" and log = "[]",
      OF a b c n lo hi ct find_container_page_of i0]
  note at1 = repository_fields [where net = "net_page ?page" and log = "[]",
      OF a b c n lo hi ct find_container_page_of i1]
  from at0 obtain d where d: "?run = Inr d" and len: "length (repos d) = 2"
    and n0: "trim_of (U '' hello '') (name (repos d ! 0))"
    and l0: "link (repos d ! 0) =
        (if name (repos d ! 0) \<noteq> U ''Unknown''
         then U ''https://github.com/'' @ U ''octocat'' @ U ''/'' @ name (repos d ! 0) else [])"
    and g0: "trim_of (U ''C'') (language (repos d ! 0))"
    and d0: "description (repos d ! 0) = []"
    by (auto simp: source_entries_fixture find_in_entry_full get_text_single)
  from at1 d have n1: "name (repos d ! 1) = U ''Unknown''"
    and l1: "link (repos d ! 1) =
        (if name (repos d ! 1) \<noteq> U ''Unknown''
         then U ''https://github.com/'' @ U ''octocat'' @ U ''/'' @ name (repos d ! 1) else [])"
    and g1: "language (repos d ! 1) = U ''Unknown''"
    and d1: "trim_of (U ''notes'') (description (repos d ! 1))"
    by (auto simp: source_entries_fixture find_in_entry_bare get_text_single)
  from trim_of_unique [OF n0] have name0: "name (repos d ! 0) = U ''hello''"
    by (simp add: strip_samples)
  from trim_of_unique [OF g0] have lang0: "language (repos d ! 0) = U ''C''"
    by (simp add: strip_samples)
  from trim_of_unique [OF d1] have desc1: "description (repos d ! 1) = U ''notes''"
    by (simp add: strip_samples)
  have link0: "link (repos d ! 0) = U ''https://github.com/octocat/hello''"
    unfolding l0 name0 by (simp add: U_def)
  have link1: "link (repos d ! 1) = []" unfolding l1 n1 by simp
  have "\<exists>d. ?run = Inr d \<and> length (repos d) = 2
          \<and> name (repos d ! 0) = U ''hello''
          \<and> link (repos d ! 0) = U ''https://github.com/octocat/hello''
          \<and> language (repos d ! 0) = U ''C'' \<and> description (repos d ! 0) = []
          \<and> name (repos d ! 1) = U ''Unknown'' \<and> link (repos d ! 1) = []
          \<and> language (repos d ! 1) = U ''Unknown'' \<and> description (repos d ! 1) = U ''notes''"
    using d len name0 link0 lang0 d0 n1 link1 g1 desc1 by blast
  with a b c n lo hi ct find_container_page_of i1 show ?thesis by blast
qed

section \<open>The shape of a result\<close>

lemma classify_fixed:
  "classify (U ''No GitHub ID provided'') = Some Missing"
  "classify (U ''Invalid GitHub ID format'') = Some InvalidFormat"
  "classify (U ''No repositories found'') = Some NoRepositoriesFound"
  by (simp_all add: classify_def U_def)

lemma classify_network: "classify (U ''Network error: '' @ m) = Some (NetworkError m)"
  by (simp add: classify_def starts_with_def U_def)

lemma classify_scraping: "classify (U ''Scraping error: '' @ m) = Some (ScrapingError m)"
  by (simp add: classify_def starts_with_def U_def)


lemma well_formed_error: "classify m = Some k \<Longrightarrow> well_formed (error_result m)"
  by (simp add: well_formed_def to_FetchResult_def error_result_def)

lemmas well_formed_errors =
  well_formed_error [OF classify_fixed(1)] well_formed_error [OF classify_fixed(2)]
  well_formed_error [OF classify_fixed(3)] well_formed_error [OF classify_network]
  well_formed_error [OF classify_scraping]

lemma well_formed_success:
  "well_formed \<lparr>error = None, count = length rs, repos = rs\<rparr>"
  by (simp add: well_formed_def to_FetchResult_def)

lemma try_block_shape: "fst (try_block net log v) = Inr d \<Longrightarrow> well_formed d"
  by (auto simp: try_block_def Let_def well_formed_errors well_formed_success
      split: sum.splits if_splits http_outcome.splits option.splits)

lemma scrape_github_shape:
  assumes r: "fst (scrape_github net log v) = Inr d"
  shows "well_formed d"
proof (cases "is_missing v")
  case (Inl e)
  with r show ?thesis by (simp add: scrape_github_def)
next
  case (Inr missing)
  note m = this
  show ?thesis
  proof (cases missing)
    case True
    with r m show ?thesis by (auto simp: scrape_github_def well_formed_errors)
  next
    case False
    obtain res log' where t: "try_block net log v = (res, log')"
      by (cases "try_block net log v")
    show ?thesis
    proof (cases res)
      case (Inl e)
      with r m False t show ?thesis
        by (auto simp: scrape_github_def well_formed_errors split: if_splits)
    next
      case (Inr d')
      with r m False t have "d' = d" by (simp add: scrape_github_def)
      with Inr t try_block_shape [of net log v d] show ?thesis by simp
    qed
  qed
qed

lemma scrape_github_scalar: "\<exists>d. fst (scrape_github net log (Scalar x)) = Inr d"
  by (auto simp: scrape_github_def split: sum.splits prod.splits)


text \<open>
  C7. For every scalar input the function returns a dictionary, and the dictionary is
  one case of the tagged union: a success whose count is the length of its list, or an
  error of one of the five kinds whose count is 0 and whose list is empty. For a
  \<open>Series\<close> no dictionary is returned: the exception of line 22 leaves the function.
\<close>

theorem fetch_result_shape:
  "(\<exists>d. fst (scrape_github net log (Scalar x)) = Inr d
        \<and> (case to_FetchResult d of
              Some (Success rs n) \<Rightarrow> n = length rs
            | Some (Error k n) \<Rightarrow> n = 0 \<and> repos d = []
            | None \<Rightarrow> False))
   \<and> fst (scrape_github net log (Series xs)) = Inl (Exn ValueError series_truth_msg)"
proof -
  obtain d where d: "fst (scrape_github net log (Scalar x)) = Inr d"
    using scrape_github_scalar by blast
  from scrape_github_shape [OF d] d show ?thesis
    by (auto simp: well_formed_def scrape_github_def)
qed

section \<open>One result for each row\<close>










section \<open>The column of the exported table\<close>












end
